theory Spec2Isabelle
  imports Complex_Main "HOL-Library.Word" "HOL-Library.Sublist"
begin

section \<open>Number model\<close>

text \<open>
  The planner of \<^verbatim>\<open>resize.go\<close> computes with Go's \<^verbatim>\<open>int\<close> and \<^verbatim>\<open>float64\<close>.
  \<^item> \<^verbatim>\<open>int\<close> is embedded as \<^typ>\<open>int\<close>: pixel counts, angles and offsets stay far
    from the 64-bit range, and no theorem below is about wrap-around.
  \<^item> \<^verbatim>\<open>float64\<close> is embedded as \<^typ>\<open>real\<close>: finite values with exact arithmetic.
    Rounding, infinities and NaN are outside the model. A quotient whose divisor is
    zero is infinite or NaN in Go and \<open>0\<close> in HOL, so the theorems about quotients
    assume what makes the divisor non-zero (a decoded raster has positive
    dimensions).
  \<^item> Go's integer \<^verbatim>\<open>/\<close> and \<^verbatim>\<open>%\<close> truncate towards zero (\<open>quo\<close>, \<open>rem\<close>), where
    HOL's \<open>div\<close> and \<open>mod\<close> round down. Every divisor in the source is a non-zero
    literal.
  \<^item> The conversion \<^verbatim>\<open>int(x)\<close> of a float truncates towards zero (\<open>int_of_float64\<close>);
    \<^verbatim>\<open>float64(n)\<close> is \<open>real_of_int\<close>.
\<close>

definition quo :: "int \<Rightarrow> int \<Rightarrow> int" where
  "quo a b = (if (0 \<le> a) = (0 \<le> b) then \<bar>a\<bar> div \<bar>b\<bar> else - (\<bar>a\<bar> div \<bar>b\<bar>))"

definition rem :: "int \<Rightarrow> int \<Rightarrow> int" where
  "rem a b = a - b * quo a b"

definition int_of_float64 :: "real \<Rightarrow> int" where
  "int_of_float64 x = (if 0 \<le> x then \<lfloor>x\<rfloor> else \<lceil>x\<rceil>)"

definition math_Floor :: "real \<Rightarrow> real" where
  "math_Floor x = real_of_int \<lfloor>x\<rfloor>"

definition math_Min :: "real \<Rightarrow> real \<Rightarrow> real" where
  "math_Min x y = (if x < y then x else y)"

definition math_Max :: "real \<Rightarrow> real \<Rightarrow> real" where
  "math_Max x y = (if x > y then x else y)"

section \<open>Data model\<close>

type_synonym byte = "8 word"

text \<open>
  Modelled from the spec: the enumerations and constants below are declared in files of
  the package that are not part of the sources at hand (\<^verbatim>\<open>ImageType\<close>, \<^verbatim>\<open>Gravity\<close>,
  \<^verbatim>\<open>Angle\<close> with \<^verbatim>\<open>D0\<close> to \<^verbatim>\<open>D270\<close>). \<^verbatim>\<open>UNKNOWN\<close> is taken to be the zero value
  of \<^verbatim>\<open>ImageType\<close>; a gravity other than the four named edges takes the default branch
  of every switch, as \<open>CENTRE\<close> does; \<^verbatim>\<open>Angle\<close> is an integer number of degrees.
\<close>

datatype ImageType = UNKNOWN | JPEG | WEBP | PNG | TIFF | MAGICK

datatype Gravity = CENTRE | NORTH | EAST | SOUTH | WEST

type_synonym Angle = int

definition D0 :: Angle where "D0 = 0"
definition D90 :: Angle where "D90 = 90"
definition D180 :: Angle where "D180 = 180"
definition D270 :: Angle where "D270 = 270"

text \<open>
  Every error return of the modelled code, and the run-time panic of an index out of
  range, is a value. \<open>NilImage\<close> stands for the use of a nil raster handle.
\<close>

datatype error =
    ImageBufferEmpty
  | UnsupportedImageFormat
  | UnsupportedOutputType
  | ExtractParamsRequired
  | MaxSizeExceeded
  | VipsError
  | IndexOutOfRange
  | NilImage

text \<open>
  The fields of \<^verbatim>\<open>Options\<close> that the modelled functions read or write. The watermark,
  blur, profile and interlace settings are only read after the transform step.
\<close>

record Options =
  Height :: int
  Width :: int
  AreaHeight :: int
  AreaWidth :: int
  Top :: int
  Left :: int
  Extend :: int
  Quality :: int
  Compression :: int
  Zoom :: int
  Crop :: bool
  Enlarge :: bool
  Embed :: bool
  Flip :: bool
  Flop :: bool
  Force :: bool
  NoAutoRotate :: bool
  Rotate :: Angle
  Gravity :: Gravity
  Type :: ImageType
  Interpolator :: int
  Interpretation :: int

text \<open>
  The raster engine (libvips behind cgo) and the constants declared outside the sources
  are parameters of the model. A raster handle is a value of type \<open>'img\<close>; \<open>Xsize\<close> and
  \<open>Ysize\<close> read its dimensions. The adapter functions of \<^verbatim>\<open>vips.go\<close> that only forward
  to the engine are fields with the adapter's name; they return the new handle, or the
  error that \<^verbatim>\<open>catchVipsError\<close> builds when the engine reports a failure.
\<close>

record 'img engine =
  Xsize :: "'img \<Rightarrow> int"
  Ysize :: "'img \<Rightarrow> int"
  HasMagickSupport :: bool
  readImageType :: "byte list \<Rightarrow> string"
  vips_init_image :: "byte list \<Rightarrow> ImageType \<Rightarrow> 'img option"
  IsTypeSupported :: "ImageType \<Rightarrow> bool"
  QUALITY :: int
  INTERPRETATION_sRGB :: int
  MAX_SIZE :: int
  Interpolator_String :: "int \<Rightarrow> string"
  interpolator_window_size :: "string \<Rightarrow> int"
  vipsExifOrientation :: "'img \<Rightarrow> int"
  vips_extract_area_bridge :: "'img \<Rightarrow> int \<Rightarrow> int \<Rightarrow> int \<Rightarrow> int \<Rightarrow> 'img option"
  vipsShrinkJpeg :: "byte list \<Rightarrow> 'img \<Rightarrow> int \<Rightarrow> error + 'img"
  vipsShrink :: "'img \<Rightarrow> int \<Rightarrow> error + 'img"
  vipsEmbed :: "'img \<Rightarrow> int \<Rightarrow> int \<Rightarrow> int \<Rightarrow> int \<Rightarrow> int \<Rightarrow> error + 'img"
  vipsAffine :: "'img \<Rightarrow> real \<Rightarrow> real \<Rightarrow> int \<Rightarrow> error + 'img"

section \<open>Geometry calculator\<close>

definition vipsWindowSize :: "'img engine \<Rightarrow> string \<Rightarrow> real" where
  "vipsWindowSize eng name = real_of_int (interpolator_window_size eng name)"

definition calculateShrink :: "'img engine \<Rightarrow> real \<Rightarrow> int \<Rightarrow> int" where
  "calculateShrink eng factor i =
     (let windowSize = vipsWindowSize eng (Interpolator_String eng i);
          shrink = (if factor \<ge> 2 \<and> windowSize > 3
                    then math_Floor (factor * 3.0 / windowSize)
                    else math_Floor factor)
      in int_of_float64 (math_Max shrink 1))"

definition calculateResidual :: "real \<Rightarrow> int \<Rightarrow> real" where
  "calculateResidual factor shrink = real_of_int shrink / factor"

definition getAngle :: "Angle \<Rightarrow> Angle" where
  "getAngle angle =
     (let divisor = rem angle 90;
          angle' = (if divisor \<noteq> 0 then angle - divisor else angle)
      in int_of_float64 (math_Min (real_of_int angle') 270))"

definition imageCalculations :: "Options \<Rightarrow> int \<Rightarrow> int \<Rightarrow> real \<times> Options" where
  "imageCalculations opts inWidth inHeight =
     (let xfactor = real_of_int inWidth / real_of_int (Width opts);
          yfactor = real_of_int inHeight / real_of_int (Height opts)
      in if Width opts > 0 \<and> Height opts > 0 then
           (if Crop opts then math_Min xfactor yfactor else math_Max xfactor yfactor, opts)
         else if Width opts > 0 then
           (xfactor,
            opts\<lparr>Height := int_of_float64 (math_Floor (real_of_int inHeight / xfactor))\<rparr>)
         else if Height opts > 0 then
           (yfactor,
            opts\<lparr>Width := int_of_float64 (math_Floor (real_of_int inWidth / yfactor))\<rparr>)
         else (1.0, opts\<lparr>Width := inWidth, Height := inHeight\<rparr>))"

definition calculateCrop :: "int \<Rightarrow> int \<Rightarrow> int \<Rightarrow> int \<Rightarrow> Gravity \<Rightarrow> int \<times> int" where
  "calculateCrop inWidth inHeight outWidth outHeight gravity =
     (case gravity of
        NORTH \<Rightarrow> (quo (inWidth - outWidth + 1) 2, 0)
      | EAST \<Rightarrow> (inWidth - outWidth, quo (inHeight - outHeight + 1) 2)
      | SOUTH \<Rightarrow> (quo (inWidth - outWidth + 1) 2, inHeight - outHeight)
      | WEST \<Rightarrow> (0, quo (inHeight - outHeight + 1) 2)
      | CENTRE \<Rightarrow> (quo (inWidth - outWidth + 1) 2, quo (inHeight - outHeight + 1) 2))"

section \<open>Orientation resolver\<close>

definition calculateRotationAndFlip :: "'img engine \<Rightarrow> 'img \<Rightarrow> Angle \<Rightarrow> Angle \<times> bool" where
  "calculateRotationAndFlip eng img angle =
     (if angle > 0 then (D0, False)
      else
        (let orientation = vipsExifOrientation eng img
         in if orientation = 6 then (D90, False)
            else if orientation = 3 then (D180, False)
            else if orientation = 8 then (D270, False)
            else if orientation = 2 then (D0, True)
            else if orientation = 7 then (D90, True)
            else if orientation = 4 then (D180, True)
            else if orientation = 5 then (D270, True)
            else (D0, False)))"

section \<open>Format detection and decoding\<close>

text \<open>
  An index expression \<^verbatim>\<open>bytes[i]\<close> panics when \<open>i\<close> is not below the length of the
  slice. \<open>conj_all\<close> is the left-to-right, short-circuit \<^verbatim>\<open>&&\<close> chain: an operand after
  a false one is not evaluated, so it cannot panic. \<open>or_else\<close> is \<^verbatim>\<open>||\<close>.
\<close>

definition byte_eq :: "byte list \<Rightarrow> nat \<Rightarrow> byte \<Rightarrow> error + bool" where
  "byte_eq bytes i v = (if i < length bytes then Inr (bytes ! i = v) else Inl IndexOutOfRange)"

fun conj_all :: "(error + bool) list \<Rightarrow> error + bool" where
  "conj_all [] = Inr True"
| "conj_all (c # cs) =
     (case c of Inl e \<Rightarrow> Inl e | Inr b \<Rightarrow> if b then conj_all cs else Inr False)"

definition or_else :: "error + bool \<Rightarrow> error + bool \<Rightarrow> error + bool" where
  "or_else a b = (case a of Inl e \<Rightarrow> Inl e | Inr x \<Rightarrow> if x then Inr True else b)"

definition branch :: "error + bool \<Rightarrow> error + 'a \<Rightarrow> error + 'a \<Rightarrow> error + 'a" where
  "branch c yes no = (case c of Inl e \<Rightarrow> Inl e | Inr b \<Rightarrow> if b then yes else no)"

definition vipsImageType :: "'img engine \<Rightarrow> byte list \<Rightarrow> error + ImageType" where
  "vipsImageType eng bytes =
     (if length bytes = 0 then Inr UNKNOWN
      else
        branch (conj_all [byte_eq bytes 0 0x89, byte_eq bytes 1 0x50,
                          byte_eq bytes 2 0x4E, byte_eq bytes 3 0x47])
          (Inr PNG)
       (branch (conj_all [byte_eq bytes 0 0xFF, byte_eq bytes 1 0xD8, byte_eq bytes 2 0xFF])
          (Inr JPEG)
       (branch (conj_all [byte_eq bytes 8 0x57, byte_eq bytes 9 0x45,
                          byte_eq bytes 10 0x42, byte_eq bytes 11 0x50])
          (Inr WEBP)
       (branch (or_else
                  (conj_all [byte_eq bytes 0 0x49, byte_eq bytes 1 0x49,
                             byte_eq bytes 2 0x2A, byte_eq bytes 3 0x0])
                  (conj_all [byte_eq bytes 0 0x4D, byte_eq bytes 1 0x4D,
                             byte_eq bytes 2 0x0, byte_eq bytes 3 0x2A]))
          (Inr TIFF)
       (if HasMagickSupport eng \<and> suffix ''MagickBuffer'' (readImageType eng bytes)
        then Inr MAGICK
        else Inr UNKNOWN)))))"

definition vipsRead :: "'img engine \<Rightarrow> byte list \<Rightarrow> error + ('img \<times> ImageType)" where
  "vipsRead eng buf =
     (case vipsImageType eng buf of
        Inl e \<Rightarrow> Inl e
      | Inr imageType \<Rightarrow>
          if imageType = UNKNOWN then Inl UnsupportedImageFormat
          else if length buf = 0 then Inl IndexOutOfRange
          else
            (case vips_init_image eng buf imageType of
               None \<Rightarrow> Inl VipsError
             | Some img \<Rightarrow> Inr (img, imageType)))"

section \<open>Operation planner\<close>

definition applyDefaults :: "'img engine \<Rightarrow> Options \<Rightarrow> ImageType \<Rightarrow> Options" where
  "applyDefaults eng opts imageType =
     (let o1 = (if Quality opts = 0 then opts\<lparr>Quality := QUALITY eng\<rparr> else opts);
          o2 = (if Compression o1 = 0 then o1\<lparr>Compression := 6\<rparr> else o1);
          o3 = (if Type o2 = UNKNOWN then o2\<lparr>Type := imageType\<rparr> else o2)
      in if Interpretation o3 = 0 then o3\<lparr>Interpretation := INTERPRETATION_sRGB eng\<rparr> else o3)"

definition normalizeOperation :: "Options \<Rightarrow> int \<Rightarrow> int \<Rightarrow> Options" where
  "normalizeOperation opts inWidth inHeight =
     (if \<not> Force opts \<and> \<not> Crop opts \<and> \<not> Embed opts \<and> \<not> Enlarge opts \<and> Rotate opts = 0
         \<and> (Width opts > 0 \<or> Height opts > 0)
      then opts\<lparr>Force := True\<rparr>
      else opts)"

definition shouldTransformImage :: "Options \<Rightarrow> int \<Rightarrow> int \<Rightarrow> bool" where
  "shouldTransformImage opts inWidth inHeight =
     (Force opts \<or> (Width opts > 0 \<and> Width opts \<noteq> inWidth) \<or>
      (Height opts > 0 \<and> Height opts \<noteq> inHeight) \<or> AreaWidth opts > 0 \<or> AreaHeight opts > 0)"

definition vipsExtract :: "'img engine \<Rightarrow> 'img \<Rightarrow> int \<Rightarrow> int \<Rightarrow> int \<Rightarrow> int \<Rightarrow> error + 'img" where
  "vipsExtract eng img left0 top0 width height =
     (if width > MAX_SIZE eng \<or> height > MAX_SIZE eng then Inl MaxSizeExceeded
      else
        (case vips_extract_area_bridge eng img left0 top0 width height of
           None \<Rightarrow> Inl VipsError
         | Some buf \<Rightarrow> Inr buf))"

text \<open>
  \<^verbatim>\<open>extractOrEmbedImage\<close> receives the options by value: the assignments of its third
  case change its own copy (\<open>o1\<close>, \<open>o2\<close>). The first of them writes \<^verbatim>\<open>AreaHeight\<close>, as the
  source does.
\<close>

definition extractOrEmbedImage :: "'img engine \<Rightarrow> 'img \<Rightarrow> Options \<Rightarrow> error + 'img" where
  "extractOrEmbedImage eng img opts =
     (let inWidth = Xsize eng img;
          inHeight = Ysize eng img
      in if Crop opts then
           (let width = int_of_float64 (math_Min (real_of_int inWidth) (real_of_int (Width opts)));
                height = int_of_float64 (math_Min (real_of_int inHeight) (real_of_int (Height opts)));
                (left0, top0) = calculateCrop inWidth inHeight (Width opts) (Height opts) (Gravity opts);
                left1 = int_of_float64 (math_Max (real_of_int left0) 0);
                top1 = int_of_float64 (math_Max (real_of_int top0) 0)
            in vipsExtract eng img left1 top1 width height)
         else if Embed opts then
           (let left0 = quo (Width opts - inWidth) 2;
                top0 = quo (Height opts - inHeight) 2
            in vipsEmbed eng img left0 top0 (Width opts) (Height opts) (Extend opts))
         else if Top opts > 0 \<or> Left opts > 0 then
           (let o1 = (if AreaWidth opts = 0 then opts\<lparr>AreaHeight := Width opts\<rparr> else opts);
                o2 = (if AreaHeight o1 = 0 then o1\<lparr>AreaHeight := Height o1\<rparr> else o1)
            in if AreaWidth o2 = 0 \<or> AreaHeight o2 = 0 then Inl ExtractParamsRequired
               else vipsExtract eng img (Left o2) (Top o2) (AreaWidth o2) (AreaHeight o2))
         else Inr img)"

definition shrinkImage :: "'img engine \<Rightarrow> 'img \<Rightarrow> Options \<Rightarrow> real \<Rightarrow> int \<Rightarrow> error + ('img \<times> real)" where
  "shrinkImage eng img opts residual shrink =
     (case vipsShrink eng img shrink of
        Inl e \<Rightarrow> Inl e
      | Inr img' \<Rightarrow>
          (let residualx = real_of_int (Width opts) / real_of_int (Xsize eng img');
               residualy = real_of_int (Height opts) / real_of_int (Ysize eng img')
           in Inr (img', if Crop opts then math_Max residualx residualy
                           else math_Min residualx residualy)))"

definition transformImage :: "'img engine \<Rightarrow> 'img \<Rightarrow> Options \<Rightarrow> int \<Rightarrow> real \<Rightarrow> error + 'img" where
  "transformImage eng img opts shrink residual =
     (case (if shrink > 1 then shrinkImage eng img opts residual shrink
            else Inr (img, residual)) of
        Inl e \<Rightarrow> Inl e
      | Inr (image1, residual1) \<Rightarrow>
          (let residualx = (if Force opts
                            then real_of_int (Width opts) / real_of_int (Xsize eng image1)
                            else residual1);
               residualy = (if Force opts
                            then real_of_int (Height opts) / real_of_int (Ysize eng image1)
                            else residual1)
           in case (if Force opts \<or> residual1 \<noteq> 0
                    then vipsAffine eng image1 residualx residualy (Interpolator opts)
                    else Inr image1) of
                Inl e \<Rightarrow> Inl e
              | Inr image2 \<Rightarrow>
                  extractOrEmbedImage eng image2
                    (if Force opts then opts\<lparr>Crop := False, Embed := False\<rparr> else opts)))"

text \<open>
  \<^verbatim>\<open>shrinkJpegImage\<close> returns a nil handle (\<open>None\<close>) when no case of its switch applies,
  that is for \<open>shrink < 2\<close>.
\<close>

definition shrinkJpegImage ::
  "'img engine \<Rightarrow> byte list \<Rightarrow> 'img \<Rightarrow> real \<Rightarrow> int \<Rightarrow> error + ('img option \<times> real)" where
  "shrinkJpegImage eng buf input factor shrink =
     (let (factor', shrinkOnLoad) =
            (if shrink \<ge> 8 then (factor / 8, 8::int)
             else if shrink \<ge> 4 then (factor / 4, 4)
             else if shrink \<ge> 2 then (factor / 2, 2)
             else (factor, 1))
      in if shrinkOnLoad > 1 then
           (case vipsShrinkJpeg eng buf input shrinkOnLoad of
              Inl e \<Rightarrow> Inl e
            | Inr img \<Rightarrow> Inr (Some img, factor'))
         else Inr (None, factor'))"

text \<open>
  The three stages of \<^verbatim>\<open>Resize\<close> before the first raster operation.
  \<open>Resize_geometry\<close> is lines 39 to 56: mode normalization, the geometry pass and the
  no-enlarge guard; it returns \<open>factor\<close>, \<open>shrink\<close>, \<open>residual\<close> and the options.
  \<open>Resize_shrinkOnLoad\<close> is lines 59 to 69; the \<^verbatim>\<open>factor\<close> assigned there is a variable of
  the inner block, so the stage returns the handle, \<open>shrink\<close> and \<open>residual\<close>.
  A nil handle from \<open>shrinkJpegImage\<close> would be stored there and used by the next step; the
  stage reports it as \<open>NilImage\<close>, and the test \<open>shrink \<ge> 2\<close> of the stage excludes it.
  \<open>Resize_plan\<close> is lines 17 to 69, with the values of the local variables at line 70.
  Of the raster operations that follow in \<^verbatim>\<open>Resize\<close>, the transform step is modelled
  (\<open>shouldTransformImage\<close>, \<open>transformImage\<close>, \<open>shrinkImage\<close>, \<open>extractOrEmbedImage\<close>).
\<close>

definition Resize_geometry ::
  "'img engine \<Rightarrow> Options \<Rightarrow> int \<Rightarrow> int \<Rightarrow> real \<times> int \<times> real \<times> Options" where
  "Resize_geometry eng opts inWidth inHeight =
     (let o1 = normalizeOperation opts inWidth inHeight;
          (factor, o2) = imageCalculations o1 inWidth inHeight;
          shrink = calculateShrink eng factor (Interpolator o2);
          residual = calculateResidual factor shrink
      in if \<not> Enlarge o2 \<and> \<not> Force o2 \<and> inWidth < Width o2 \<and> inHeight < Height o2
         then (1.0, 1, 0, o2\<lparr>Width := inWidth, Height := inHeight\<rparr>)
         else (factor, shrink, residual, o2))"

definition Resize_shrinkOnLoad ::
  "'img engine \<Rightarrow> byte list \<Rightarrow> 'img \<Rightarrow> ImageType \<Rightarrow> real \<Rightarrow> int \<Rightarrow> real
     \<Rightarrow> error + ('img \<times> int \<times> real)" where
  "Resize_shrinkOnLoad eng buf img imageType factor shrink residual =
     (if imageType = JPEG \<and> shrink \<ge> 2 then
        (case shrinkJpegImage eng buf img factor shrink of
           Inl e \<Rightarrow> Inl e
         | Inr (tmpImage, factor1) \<Rightarrow>
             (let factor2 = math_Max factor1 1.0;
                  shrink' = int_of_float64 (math_Floor factor2);
                  residual' = real_of_int shrink' / factor2
              in case tmpImage of
                   None \<Rightarrow> Inl NilImage
                 | Some img' \<Rightarrow> Inr (img', shrink', residual')))
      else Inr (img, shrink, residual))"

record 'img plan =
  plan_image :: 'img
  plan_imageType :: ImageType
  plan_factor :: real
  plan_shrink :: int
  plan_residual :: real
  plan_options :: Options

definition Resize_plan :: "'img engine \<Rightarrow> byte list \<Rightarrow> Options \<Rightarrow> error + 'img plan" where
  "Resize_plan eng buf opts =
     (if length buf = 0 then Inl ImageBufferEmpty
      else
        (case vipsRead eng buf of
           Inl e \<Rightarrow> Inl e
         | Inr (img, imageType) \<Rightarrow>
             (let o1 = applyDefaults eng opts imageType
              in if IsTypeSupported eng (Type o1) = False then Inl UnsupportedOutputType
                 else
                   (let inWidth = Xsize eng img;
                        inHeight = Ysize eng img;
                        (factor, shrink, residual, o2) = Resize_geometry eng o1 inWidth inHeight
                    in case Resize_shrinkOnLoad eng buf img imageType factor shrink residual of
                         Inl e \<Rightarrow> Inl e
                       | Inr (img', shrink', residual') \<Rightarrow>
                           Inr \<lparr>plan_image = img', plan_imageType = imageType,
                                plan_factor = factor, plan_shrink = shrink',
                                plan_residual = residual', plan_options = o2\<rparr>))))"

section \<open>A reference engine and reference options\<close>

text \<open>
  A small engine for concrete runs: a raster is its pair of dimensions, every buffer with
  a known signature decodes to a \<open>w \<times> h\<close> raster, and every operation yields the raster
  of the size it is asked for. \<open>no_options\<close> is the zero value of \<^verbatim>\<open>Options\<close>.
\<close>

definition demo_engine :: "int \<Rightarrow> int \<Rightarrow> (int \<times> int) engine" where
  "demo_engine w h =
     \<lparr>Xsize = fst, Ysize = snd,
      HasMagickSupport = False,
      readImageType = (\<lambda>buf. []),
      vips_init_image = (\<lambda>buf t. Some (w, h)),
      IsTypeSupported = (\<lambda>t. t = JPEG \<or> t = WEBP \<or> t = PNG),
      QUALITY = 80,
      INTERPRETATION_sRGB = 22,
      MAX_SIZE = 10000,
      Interpolator_String =
        (\<lambda>i. if i = 0 then ''bicubic'' else if i = 1 then ''bilinear'' else ''nohalo''),
      interpolator_window_size =
        (\<lambda>name. if name = ''bicubic'' then 4 else if name = ''bilinear'' then 2 else 5),
      vipsExifOrientation = (\<lambda>img. 0),
      vips_extract_area_bridge = (\<lambda>img left0 top0 width height. Some (width, height)),
      vipsShrinkJpeg = (\<lambda>buf img s. Inr (fst img div s, snd img div s)),
      vipsShrink = (\<lambda>img s. Inr (fst img div s, snd img div s)),
      vipsEmbed = (\<lambda>img left0 top0 width height extend. Inr (width, height)),
      vipsAffine =
        (\<lambda>img rx ry i. Inr (\<lfloor>real_of_int (fst img) * rx\<rfloor>, \<lfloor>real_of_int (snd img) * ry\<rfloor>))\<rparr>"

definition no_options :: Options where
  "no_options =
     \<lparr>Height = 0, Width = 0, AreaHeight = 0, AreaWidth = 0, Top = 0, Left = 0, Extend = 0,
      Quality = 0, Compression = 0, Zoom = 0, Crop = False, Enlarge = False, Embed = False,
      Flip = False, Flop = False, Force = False, NoAutoRotate = False, Rotate = 0,
      Gravity = CENTRE, Type = UNKNOWN, Interpolator = 0, Interpretation = 0\<rparr>"


definition jpeg_header :: "byte list" where
  "jpeg_header = [0xFF, 0xD8, 0xFF, 0xE0]"

text \<open>
  The first eleven bytes of a buffer whose bytes 8 to 11 would spell the WEBP tag; each
  of its non-empty prefixes passes the PNG and JPEG tests and then runs out of bytes.
\<close>

definition webp_tail :: "byte list" where
  "webp_tail = [0, 0, 0, 0, 0, 0, 0, 0, 0x57, 0x45, 0x42]"


definition enlarge_options :: Options where
  "enlarge_options = no_options\<lparr>Width := 100, Enlarge := True\<rparr>"

definition region_options :: Options where
  "region_options = no_options\<lparr>Width := 100, Height := 80, Top := 10, AreaHeight := 50\<rparr>"

section \<open>Conversions between the two number types\<close>

lemma int_of_float64_of_int: "int_of_float64 (real_of_int k) = k"
  by (simp add: int_of_float64_def)


lemma math_Min_of_int: "math_Min (real_of_int a) (real_of_int b) = real_of_int (min a b)"
  by (simp add: math_Min_def min_def)

lemma rem_nonneg: "0 \<le> a \<Longrightarrow> 0 < b \<Longrightarrow> rem a b = a mod b"
  by (simp add: rem_def quo_def minus_mult_div_eq_mod)

lemma int_of_float64_floor: "int_of_float64 (math_Floor x) = \<lfloor>x\<rfloor>"
  by (simp add: math_Floor_def int_of_float64_of_int)



lemma math_Max_eq_max: "math_Max x y = max x y"
  by (simp add: math_Max_def max_def)



section \<open>The integer pre-shrink factor\<close>



section \<open>Angles\<close>

text \<open>
  Claim C7. For every non-negative angle, \<open>getAngle\<close> returns the greatest multiple of 90
  that is not above the angle, capped at 270; so every angle from 270 on yields 270.
  In particular \<open>getAngle 370 = 270\<close>, \<open>getAngle 45 = 0\<close> and \<open>getAngle 180 = 180\<close>.
\<close>

theorem getAngle_spec:
  "0 \<le> angle \<Longrightarrow>
     getAngle angle = min (90 * (angle div 90)) 270
     \<and> (270 \<le> angle \<longrightarrow> getAngle angle = 270)
     \<and> getAngle 370 = 270 \<and> getAngle 45 = 0 \<and> getAngle 180 = 180"
proof -
  assume nonneg: "0 \<le> angle"
  have eq: "getAngle a = min (90 * (a div 90)) 270" if "0 \<le> a" for a
  proof -
    have r: "rem a 90 = a mod 90"
      using that by (simp add: rem_nonneg)
    have down: "(if a mod 90 \<noteq> 0 then a - a mod 90 else a) = 90 * (a div 90)"
      by (simp add: minus_mod_eq_mult_div) (metis add.right_neutral mult_div_mod_eq)
    have "math_Min (real_of_int (90 * (a div 90))) 270 = real_of_int (min (90 * (a div 90)) 270)"
      using math_Min_of_int [of "90 * (a div 90)" 270] by simp
    then show ?thesis
      unfolding getAngle_def Let_def r down by (simp only: int_of_float64_of_int)
  qed
  have cap: "getAngle angle = 270" if "270 \<le> angle"
  proof -
    have "3 \<le> angle div 90"
      using that by (simp add: pos_imp_zdiv_pos_iff zdiv_mono1 [of 270 angle 90, simplified])
    then show ?thesis
      using eq [OF nonneg] by simp
  qed
  have "getAngle 370 = 270" "getAngle 45 = 0" "getAngle 180 = 180"
    by (simp_all add: eq)
  with eq [OF nonneg] cap show ?thesis
    by blast
qed

theorem getAngle_spec_witness: "(0::int) \<le> 275 \<and> getAngle 275 = 270"
  using getAngle_spec [of 275] by simp

section \<open>The scale factor\<close>



section \<open>Crop offsets\<close>



section \<open>Orientation\<close>

text \<open>
  Claim C8. \<open>calculateRotationAndFlip\<close> returns rotation 0 and no flip whenever the
  requested angle is positive. Otherwise it maps the orientation tag of the raster:
  6 to (90, no flip), 3 to (180, no flip), 8 to (270, no flip), 2 to (0, flip),
  7 to (90, flip), 4 to (180, flip), 5 to (270, flip), and every other value, 1 and 0
  (absent) among them, to (0, no flip).
\<close>

theorem calculateRotationAndFlip_spec:
  "(0 < angle \<longrightarrow> calculateRotationAndFlip eng img angle = (0, False))
   \<and> (\<not> 0 < angle \<longrightarrow>
        calculateRotationAndFlip eng img angle =
          (let orientation = vipsExifOrientation eng img
           in if orientation = 6 then (90, False)
              else if orientation = 3 then (180, False)
              else if orientation = 8 then (270, False)
              else if orientation = 2 then (0, True)
              else if orientation = 7 then (90, True)
              else if orientation = 4 then (180, True)
              else if orientation = 5 then (270, True)
              else (0, False)))"
  by (simp add: calculateRotationAndFlip_def Let_def D0_def D90_def D180_def D270_def)

theorem calculateRotationAndFlip_spec_witness:
  "calculateRotationAndFlip ((demo_engine 1 1)\<lparr>vipsExifOrientation := \<lambda>img. 7\<rparr>) (1, 1) 90
     = (0, False)
   \<and> calculateRotationAndFlip ((demo_engine 1 1)\<lparr>vipsExifOrientation := \<lambda>img. 7\<rparr>) (1, 1) 0
     = (90, True)
   \<and> calculateRotationAndFlip (demo_engine 1 1) (1, 1) 0 = (0, False)"
  using calculateRotationAndFlip_spec
          [of 90 "(demo_engine 1 1)\<lparr>vipsExifOrientation := \<lambda>img. 7\<rparr>" "(1, 1)"]
        calculateRotationAndFlip_spec
          [of 0 "(demo_engine 1 1)\<lparr>vipsExifOrientation := \<lambda>img. 7\<rparr>" "(1, 1)"]
        calculateRotationAndFlip_spec [of 0 "demo_engine 1 1" "(1, 1)"]
  by (simp add: demo_engine_def)

section \<open>The JPEG shrink-on-load path\<close>

lemma shrinkJpegImage_level:
  "2 \<le> shrink \<Longrightarrow>
     shrinkJpegImage eng buf input factor shrink =
       (let level = (if 8 \<le> shrink then 8 else if 4 \<le> shrink then 4 else 2)
        in case vipsShrinkJpeg eng buf input level of
             Inl e \<Rightarrow> Inl e
           | Inr img \<Rightarrow> Inr (Some img, factor / real_of_int level))"
  by (simp add: shrinkJpegImage_def Let_def split: sum.split)

lemma shrinkJpegImage_nil:
  "shrinkJpegImage eng buf input factor shrink = Inr (None, factor') \<Longrightarrow> shrink < 2"
  by (auto simp add: shrinkJpegImage_def Let_def split: if_splits sum.splits)

lemma level_Max:
  fixes shrink :: int
  assumes "2 \<le> shrink"
  shows "(if 8 \<le> shrink then 8 else if 4 \<le> shrink then 4 else 2)
           = Max {l \<in> {2, 4, 8}. l \<le> shrink}"
proof -
  consider "8 \<le> shrink" | "4 \<le> shrink" "shrink < 8" | "shrink < 4"
    by linarith
  then show ?thesis
  proof cases
    case 1
    then have "{l \<in> {2, 4, 8}. l \<le> shrink} = {2, 4, 8}"
      by auto
    with 1 show ?thesis by simp
  next
    case 2
    then have "{l \<in> {2, 4, 8}. l \<le> shrink} = {2, 4}"
      by auto
    with 2 show ?thesis by simp
  next
    case 3
    with assms have "{l \<in> {2, 4, 8}. l \<le> shrink} = {2}"
      by auto
    with 3 show ?thesis by simp
  qed
qed

text \<open>
  Claim C9. On the shrink-on-load path (the source is a JPEG and \<open>shrink \<ge> 2\<close>) the level
  handed to the decoder is the largest of 2, 4 and 8 that is not above \<open>shrink\<close>: 8 from
  \<open>shrink \<ge> 8\<close>, else 4 from \<open>shrink \<ge> 4\<close>, else 2. The factor becomes the former factor
  divided by the level, raised to 1 when smaller, and then \<open>shrink\<close> is the floor of that
  factor and \<open>residual\<close> is \<open>shrink / factor\<close>. A failure of the decoder is the result of the
  stage.
\<close>

theorem Resize_shrinkOnLoad_spec:
  assumes "2 \<le> shrink"
  shows
    "let level = (if 8 \<le> shrink then 8 else if 4 \<le> shrink then 4 else 2);
         factor' = max (factor / real_of_int level) 1
     in level = Max {l \<in> {2, 4, 8}. l \<le> shrink}
        \<and> Resize_shrinkOnLoad eng buf img JPEG factor shrink residual =
            (case vipsShrinkJpeg eng buf img level of
               Inl e \<Rightarrow> Inl e
             | Inr img' \<Rightarrow> Inr (img', \<lfloor>factor'\<rfloor>, real_of_int \<lfloor>factor'\<rfloor> / factor'))"
proof -
  define level :: int where "level = (if 8 \<le> shrink then 8 else if 4 \<le> shrink then 4 else 2)"
  have lv: "level = Max {l \<in> {2, 4, 8}. l \<le> shrink}"
    unfolding level_def using assms by (rule level_Max)
  have load: "shrinkJpegImage eng buf img factor shrink =
      (case vipsShrinkJpeg eng buf img level of
         Inl e \<Rightarrow> Inl e
       | Inr img' \<Rightarrow> Inr (Some img', factor / real_of_int level))"
    using shrinkJpegImage_level [OF assms, of eng buf img factor]
    unfolding Let_def level_def [symmetric] .
  have "Resize_shrinkOnLoad eng buf img JPEG factor shrink residual =
      (case vipsShrinkJpeg eng buf img level of
         Inl e \<Rightarrow> Inl e
       | Inr img' \<Rightarrow>
           Inr (img', \<lfloor>max (factor / real_of_int level) 1\<rfloor>,
                real_of_int \<lfloor>max (factor / real_of_int level) 1\<rfloor>
                  / max (factor / real_of_int level) 1))"
    using assms
    by (simp add: Resize_shrinkOnLoad_def load Let_def int_of_float64_floor math_Max_eq_max
        split: sum.split)
  with lv show ?thesis
    unfolding Let_def level_def [symmetric] by simp
qed

theorem Resize_shrinkOnLoad_spec_witness:
  "(2::int) \<le> 6
   \<and> Resize_shrinkOnLoad (demo_engine 800 600) jpeg_header (800, 600) JPEG 8 6 (3 / 4)
       = Inr ((200, 150), 2, 1)"
  using Resize_shrinkOnLoad_spec [of 6 8 "demo_engine 800 600" jpeg_header "(800, 600)" "3 / 4"]
  by (simp add: Let_def demo_engine_def)

section \<open>Format detection on short buffers\<close>

lemma vipsImageType_total_from_12:
  assumes "12 \<le> length bytes"
  shows "\<exists>t. vipsImageType eng bytes = Inr t"
proof -
  have r: "byte_eq bytes i v = Inr (bytes ! i = v)" if "i < 12" for i v
    using that assms by (simp add: byte_eq_def)
  show ?thesis
    using assms by (simp add: vipsImageType_def r branch_def or_else_def)
qed

lemma vipsImageType_one_byte: "vipsImageType eng [b] = Inl IndexOutOfRange"
  by (simp add: vipsImageType_def byte_eq_def branch_def or_else_def)

lemma vipsImageType_webp_tail:
  assumes "0 < n" and "n < 12"
  shows "vipsImageType eng (take n webp_tail) = Inl IndexOutOfRange"
proof (cases "n \<le> 8")
  case True
  let ?bytes = "take n webp_tail"
  from True have len: "length ?bytes = n"
    by (simp add: webp_tail_def)
  from assms have first: "?bytes ! 0 = 0"
    by (simp add: webp_tail_def)
  from assms len first have "byte_eq ?bytes 0 v = Inr (0 = v)" for v
    by (auto simp add: byte_eq_def)
  moreover from True len have "byte_eq ?bytes 8 v = Inl IndexOutOfRange" for v
    by (simp add: byte_eq_def)
  ultimately show ?thesis
    using assms len by (simp add: vipsImageType_def branch_def)
next
  case False
  with assms have "n \<in> {9, 10, 11}"
    by auto
  then show ?thesis
    by (elim insertE emptyE)
      (simp_all add: webp_tail_def vipsImageType_def byte_eq_def branch_def or_else_def)
qed

text \<open>
  Claim C10. \<open>vipsImageType\<close> returns for the empty buffer (\<open>UNKNOWN\<close>) and for every buffer
  of at least 12 bytes, and for no other length on all buffers: for every length from 1
  to 11 some buffer of that length makes it index past the end. Every buffer of one
  byte does, whatever the byte; \<open>vipsRead\<close> and \<open>Resize\<close> then end in the same panic, not
  in the error for an unsupported format.
\<close>

theorem vipsImageType_partial:
  "vipsImageType eng [] = Inr UNKNOWN
   \<and> (12 \<le> length bytes \<longrightarrow> (\<exists>t. vipsImageType eng bytes = Inr t))
   \<and> (\<forall>n. 0 < n \<and> n < 12 \<longrightarrow>
         (\<exists>short. length short = n \<and> vipsImageType eng short = Inl IndexOutOfRange))
   \<and> vipsImageType eng [b] = Inl IndexOutOfRange
   \<and> vipsRead eng [b] = Inl IndexOutOfRange
   \<and> Resize_plan eng [b] opts = Inl IndexOutOfRange
   \<and> Resize_plan eng [b] opts \<noteq> Inl UnsupportedImageFormat"
proof -
  have empty: "vipsImageType eng [] = Inr UNKNOWN"
    by (simp add: vipsImageType_def)
  have short: "\<exists>short. length short = n \<and> vipsImageType eng short = Inl IndexOutOfRange"
    if "0 < n \<and> n < 12" for n
  proof -
    from that have "length (take n webp_tail) = n"
      by (simp add: webp_tail_def)
    with that vipsImageType_webp_tail [of n eng] show ?thesis
      by blast
  qed
  have read: "vipsRead eng [b] = Inl IndexOutOfRange"
    by (simp add: vipsRead_def vipsImageType_one_byte)
  have plan: "Resize_plan eng [b] opts = Inl IndexOutOfRange"
    by (simp add: Resize_plan_def read)
  from empty vipsImageType_total_from_12 [of bytes eng] short vipsImageType_one_byte [of eng b]
    read plan
  show ?thesis
    by simp
qed

theorem vipsImageType_partial_witness:
  "vipsImageType (demo_engine 1 1)
     [0x52, 0x49, 0x46, 0x46, 0, 0, 0, 0, 0x57, 0x45, 0x42, 0x50] = Inr WEBP
   \<and> vipsImageType (demo_engine 1 1) [0x52, 0x49, 0x46, 0x46, 0, 0, 0, 0, 0x57]
       = Inl IndexOutOfRange
   \<and> (\<exists>short. length short = (9::nat)
         \<and> vipsImageType (demo_engine 1 1) short = Inl IndexOutOfRange)
   \<and> Resize_plan (demo_engine 1 1) [0x47] no_options = Inl IndexOutOfRange"
proof -
  have "vipsImageType (demo_engine 1 1)
     [0x52, 0x49, 0x46, 0x46, 0, 0, 0, 0, 0x57, 0x45, 0x42, 0x50] = Inr WEBP"
    by (simp add: vipsImageType_def byte_eq_def branch_def or_else_def)
  moreover have "vipsImageType (demo_engine 1 1) [0x52, 0x49, 0x46, 0x46, 0, 0, 0, 0, 0x57]
       = Inl IndexOutOfRange"
    by (simp add: vipsImageType_def byte_eq_def branch_def or_else_def)
  ultimately show ?thesis
    using vipsImageType_partial [of "demo_engine 1 1" "[0x52, 0x49, 0x46, 0x46, 0, 0, 0, 0, 0x57, 0x45, 0x42, 0x50]" "0x47" no_options]
    by simp
qed

section \<open>The no-enlarge guard\<close>











section \<open>The explicit extract region\<close>

lemma extractOrEmbedImage_area_width_unset:
  assumes "\<not> Crop opts" and "\<not> Embed opts" and "0 < Top opts \<or> 0 < Left opts"
    and "AreaWidth opts = 0"
  shows "extractOrEmbedImage eng img opts = Inl ExtractParamsRequired"
  using assms by (simp add: extractOrEmbedImage_def Let_def)

text \<open>
  Claim C2 says that in the explicit-region branch an unset \<^verbatim>\<open>AreaWidth\<close> takes the target
  width and an unset \<^verbatim>\<open>AreaHeight\<close> the target height, with the error only when a dimension
  is still zero after that. The code assigns the target width to \<^verbatim>\<open>AreaHeight\<close>, so an
  unset \<^verbatim>\<open>AreaWidth\<close> stays zero and the branch always ends in the error. Here the region
  has top 10, area height 50 and no area width, the target is 100 by 80: the code returns
  the error, where the claim has the region \<open>(0, 10, 100, 50)\<close> extracted.
\<close>

theorem extractOrEmbedImage_region_failure:
  "\<not> Crop region_options \<and> \<not> Embed region_options \<and> 0 < Top region_options
   \<and> AreaWidth region_options = 0 \<and> Width region_options = 100
   \<and> AreaHeight region_options = 50
   \<and> extractOrEmbedImage (demo_engine 800 600) (800, 600) region_options
       = Inl ExtractParamsRequired
   \<and> vipsExtract (demo_engine 800 600) (800, 600) 0 10 100 50 = Inr (100, 50)"
  by (simp add: extractOrEmbedImage_def vipsExtract_def region_options_def no_options_def
      demo_engine_def)

section \<open>Mode normalization\<close>

lemma transformImage_force:
  assumes "Force opts"
  shows "transformImage eng img opts shrink residual =
           transformImage eng img (opts\<lparr>Crop := False, Embed := False\<rparr>) shrink residual"
proof (cases "shrink > 1")
  case False
  with assms show ?thesis
    by (simp add: transformImage_def split: sum.split)
next
  case True
  show ?thesis
  proof (cases "vipsShrink eng img shrink")
    case (Inl e)
    with True show ?thesis
      by (simp add: transformImage_def shrinkImage_def)
  next
    case (Inr img1)
    with True assms show ?thesis
      by (simp add: transformImage_def shrinkImage_def Let_def split: sum.split)
  qed
qed

lemma extractOrEmbedImage_crop:
  "Crop opts \<Longrightarrow>
     extractOrEmbedImage eng i (opts\<lparr>Embed := False\<rparr>) = extractOrEmbedImage eng i opts"
  by (simp add: extractOrEmbedImage_def Let_def)

lemma transformImage_crop:
  assumes "Crop opts"
  shows "transformImage eng img opts shrink residual =
           transformImage eng img (opts\<lparr>Embed := False\<rparr>) shrink residual"
proof (cases "Force opts")
  case True
  then have "transformImage eng img (opts\<lparr>Embed := False\<rparr>) shrink residual =
      transformImage eng img (opts\<lparr>Embed := False, Crop := False, Embed := False\<rparr>) shrink residual"
    by (intro transformImage_force) simp
  also have "opts\<lparr>Embed := False, Crop := False, Embed := False\<rparr> = opts\<lparr>Crop := False, Embed := False\<rparr>"
    by simp
  finally show ?thesis
    using transformImage_force [OF True, of eng img shrink residual] by simp
next
  case False
  have sh: "shrinkImage eng img (opts\<lparr>Embed := False\<rparr>) residual shrink
      = shrinkImage eng img opts residual shrink"
    by (simp add: shrinkImage_def split: sum.split)
  from False assms show ?thesis
    by (simp add: transformImage_def sh extractOrEmbedImage_crop split: sum.split prod.split)
qed

text \<open>
  Claim C3, as the code has it. The claim says that after normalization exactly one of
  force, crop and embed is in effect whenever a width or height was given, and that
  force is set when the caller asked for none of the three. The test of
  \<open>normalizeOperation\<close> also requires \<open>enlarge\<close> unset and no rotation. What holds: when the
  caller asked for none of force, crop, embed and enlarge and for no rotation, and gave a
  positive width or height, \<open>normalizeOperation\<close> sets force and nothing else, so exactly
  one of the three flags is set; in every other case it returns the options unchanged.
  In \<open>transformImage\<close> at most one of the three takes effect: with force set the crop and
  embed flags do not matter, and with crop set the embed flag does not matter.
\<close>

theorem normalizeOperation_spec:
  "(\<not> Force opts \<and> \<not> Crop opts \<and> \<not> Embed opts \<and> \<not> Enlarge opts \<and> Rotate opts = 0
      \<and> (0 < Width opts \<or> 0 < Height opts) \<longrightarrow>
        normalizeOperation opts inWidth inHeight = opts\<lparr>Force := True\<rparr>
        \<and> Force (normalizeOperation opts inWidth inHeight)
        \<and> \<not> Crop (normalizeOperation opts inWidth inHeight)
        \<and> \<not> Embed (normalizeOperation opts inWidth inHeight))
   \<and> (Force opts \<or> Crop opts \<or> Embed opts \<or> Enlarge opts \<or> Rotate opts \<noteq> 0
      \<or> \<not> (0 < Width opts \<or> 0 < Height opts) \<longrightarrow>
        normalizeOperation opts inWidth inHeight = opts)
   \<and> (Force opts \<longrightarrow>
        transformImage eng img opts shrink residual =
          transformImage eng img (opts\<lparr>Crop := False, Embed := False\<rparr>) shrink residual)
   \<and> (Crop opts \<longrightarrow>
        transformImage eng img opts shrink residual =
          transformImage eng img (opts\<lparr>Embed := False\<rparr>) shrink residual)"
proof (intro conjI impI)
  assume c: "\<not> Force opts \<and> \<not> Crop opts \<and> \<not> Embed opts \<and> \<not> Enlarge opts \<and> Rotate opts = 0
      \<and> (0 < Width opts \<or> 0 < Height opts)"
  then show n: "normalizeOperation opts inWidth inHeight = opts\<lparr>Force := True\<rparr>"
    by (simp add: normalizeOperation_def)
  show "Force (normalizeOperation opts inWidth inHeight)"
    unfolding n by simp
  from c show "\<not> Crop (normalizeOperation opts inWidth inHeight)"
    unfolding n by simp
  from c show "\<not> Embed (normalizeOperation opts inWidth inHeight)"
    unfolding n by simp
next
  assume "Force opts \<or> Crop opts \<or> Embed opts \<or> Enlarge opts \<or> Rotate opts \<noteq> 0
      \<or> \<not> (0 < Width opts \<or> 0 < Height opts)"
  then show "normalizeOperation opts inWidth inHeight = opts"
    by (auto simp add: normalizeOperation_def)
next
  assume "Force opts"
  then show "transformImage eng img opts shrink residual =
      transformImage eng img (opts\<lparr>Crop := False, Embed := False\<rparr>) shrink residual"
    by (rule transformImage_force)
next
  assume "Crop opts"
  then show "transformImage eng img opts shrink residual =
      transformImage eng img (opts\<lparr>Embed := False\<rparr>) shrink residual"
    by (rule transformImage_crop)
qed

theorem normalizeOperation_spec_witness:
  "normalizeOperation (no_options\<lparr>Width := 100\<rparr>) 200 200 = no_options\<lparr>Width := 100, Force := True\<rparr>
   \<and> normalizeOperation enlarge_options 200 200 = enlarge_options
   \<and> transformImage (demo_engine 800 600) (800, 600)
        (no_options\<lparr>Width := 100, Height := 100, Force := True, Crop := True, Embed := True\<rparr>) 4 1
      = Inr (100, 100)
   \<and> transformImage (demo_engine 800 600) (800, 600)
        (no_options\<lparr>Width := 100, Height := 100, Crop := True, Embed := True\<rparr>) 4 1
      = vipsExtract (demo_engine 800 600) (200, 150) 50 25 100 100"
proof -
  have a: "transformImage (demo_engine 800 600) (800, 600)
        (no_options\<lparr>Width := 100, Height := 100, Force := True, Crop := False, Embed := False\<rparr>) 4 1
      = Inr (100, 100)"
    by (simp add: transformImage_def shrinkImage_def extractOrEmbedImage_def Let_def
        no_options_def demo_engine_def math_Min_def)
  have b: "transformImage (demo_engine 800 600) (800, 600)
        (no_options\<lparr>Width := 100, Height := 100, Crop := True, Embed := False\<rparr>) 4 1
      = vipsExtract (demo_engine 800 600) (200, 150) 50 25 100 100"
    by (simp add: transformImage_def shrinkImage_def extractOrEmbedImage_def calculateCrop_def
        Let_def no_options_def demo_engine_def math_Min_def math_Max_def int_of_float64_def
        quo_def vipsExtract_def)
  show ?thesis
    using normalizeOperation_spec [of "no_options\<lparr>Width := 100\<rparr>" 200 200]
      normalizeOperation_spec [of enlarge_options 200 200]
      normalizeOperation_spec [of "no_options\<lparr>Width := 100, Height := 100, Force := True, Crop := True, Embed := True\<rparr>" _ _ "demo_engine 800 600" "(800, 600)" 4 1]
      normalizeOperation_spec [of "no_options\<lparr>Width := 100, Height := 100, Crop := True, Embed := True\<rparr>" _ _ "demo_engine 800 600" "(800, 600)" 4 1]
      a b
    by (simp add: no_options_def enlarge_options_def)
qed

text \<open>
  The claim as stated fails for a caller who gives a width and \<open>enlarge\<close> and none of
  force, crop and embed: after normalization none of the three is set.
\<close>

theorem normalizeOperation_counterexample:
  "0 < Width enlarge_options
   \<and> \<not> Force enlarge_options \<and> \<not> Crop enlarge_options \<and> \<not> Embed enlarge_options
   \<and> \<not> Force (normalizeOperation enlarge_options 200 200)
   \<and> \<not> Crop (normalizeOperation enlarge_options 200 200)
   \<and> \<not> Embed (normalizeOperation enlarge_options 200 200)"
  by (simp add: normalizeOperation_def enlarge_options_def no_options_def)

end
